theory Spec2Isabelle
  imports Complex_Main "HOL-Library.AList" "HOL-Library.Word"
begin

section \<open>JavaScript values as the handler sees them\<close>

text \<open>
  The tool handler receives \<^verbatim>\<open>request: any\<close>: the operation name and an arguments bag
  that was parsed from JSON. A JSON number is a finite number (JSON has no NaN), modelled
  as a rational; \<open>-0\<close> and \<open>0\<close> are the same rational and both are falsy. An object is
  the list of its own properties in insertion order, looked up by \<open>map_of\<close>.
  \<open>JUndefined\<close> is what reading a missing property gives.
\<close>

datatype jsval =
    JUndefined
  | JNull
  | JBool bool
  | JNum rat
  | JStr string
  | JArr "jsval list"
  | JObj "(string \<times> jsval) list"

type_synonym jsobj = "(string \<times> jsval) list"

text \<open>ToBoolean, as used by \<^verbatim>\<open>!x\<close>, \<^verbatim>\<open>x && y\<close> and \<^verbatim>\<open>x || y\<close>.\<close>

fun truthy :: "jsval \<Rightarrow> bool" where
  "truthy JUndefined = False"
| "truthy JNull = False"
| "truthy (JBool b) = b"
| "truthy (JNum x) = (x \<noteq> 0)"
| "truthy (JStr s) = (s \<noteq> [])"
| "truthy (JArr xs) = True"
| "truthy (JObj ps) = True"

text \<open>The \<^verbatim>\<open>typeof\<close> operator.\<close>

fun typeof :: "jsval \<Rightarrow> string" where
  "typeof JUndefined = ''undefined''"
| "typeof JNull = ''object''"
| "typeof (JBool b) = ''boolean''"
| "typeof (JNum x) = ''number''"
| "typeof (JStr s) = ''string''"
| "typeof (JArr xs) = ''object''"
| "typeof (JObj ps) = ''object''"

text \<open>
  \<^verbatim>\<open>'prompt' in v\<close> for a value that already passed the \<^verbatim>\<open>typeof v === 'object'\<close> test:
  an object has the key when it is one of its properties; an array has index keys and
  \<^verbatim>\<open>length\<close> only. The handler never applies \<^verbatim>\<open>in\<close> to a primitive.
\<close>

fun has_prop :: "string \<Rightarrow> jsval \<Rightarrow> bool" where
  "has_prop k (JObj ps) = (map_of ps k \<noteq> None)"
| "has_prop k v = False"

text \<open>
  Property read \<^verbatim>\<open>v.k\<close> on a value that is neither \<^verbatim>\<open>null\<close> nor \<^verbatim>\<open>undefined\<close>, for
  the property names this program reads (\<^verbatim>\<open>prompt\<close>, \<^verbatim>\<open>model\<close>, \<^verbatim>\<open>width\<close>,
  \<^verbatim>\<open>height\<close>, \<^verbatim>\<open>steps\<close>, \<^verbatim>\<open>n\<close>, \<^verbatim>\<open>response_format\<close>, \<^verbatim>\<open>image_path\<close>,
  \<^verbatim>\<open>data\<close>, \<^verbatim>\<open>url\<close>, \<^verbatim>\<open>b64_json\<close>, \<^verbatim>\<open>message\<close>): none of them is inherited from a
  prototype, so only an object's own property can answer.
\<close>

fun get_field :: "jsval \<Rightarrow> string \<Rightarrow> jsval" where
  "get_field (JObj ps) k = (case map_of ps k of None \<Rightarrow> JUndefined | Some v \<Rightarrow> v)"
| "get_field v k = JUndefined"

text \<open>Optional chaining \<^verbatim>\<open>v?.k\<close>: \<^verbatim>\<open>undefined\<close> when \<open>v\<close> is nullish.\<close>

definition opt_field :: "jsval \<Rightarrow> string \<Rightarrow> jsval" where
  "opt_field v k = (if v = JUndefined \<or> v = JNull then JUndefined else get_field v k)"

text \<open>
  Optional element read \<^verbatim>\<open>v?.[0]\<close>: the first element of an array, the first code unit
  of a string, the property \<^verbatim>\<open>"0"\<close> of an object.
\<close>

fun opt_index0 :: "jsval \<Rightarrow> jsval" where
  "opt_index0 (JArr []) = JUndefined"
| "opt_index0 (JArr (x # xs)) = x"
| "opt_index0 (JStr []) = JUndefined"
| "opt_index0 (JStr (c # cs)) = JStr [c]"
| "opt_index0 (JObj ps) = get_field (JObj ps) ''0''"
| "opt_index0 v = JUndefined"

text \<open>
  One step of an object literal with a conditional spread,
  \<^verbatim>\<open>{ ...body, ...(x && { k: x }) }\<close>: a falsy \<open>x\<close> spreads nothing, a truthy one sets
  the property \<open>k\<close>, in place when \<open>body\<close> already has it.
\<close>

definition spread_if :: "string \<Rightarrow> jsval \<Rightarrow> jsobj \<Rightarrow> jsobj" where
  "spread_if k x body = (if truthy x then AList.update k x body else body)"


text \<open>Logical or, \<^verbatim>\<open>x || y\<close>: the first operand when it is truthy.\<close>

definition js_or :: "jsval \<Rightarrow> jsval \<Rightarrow> jsval" where
  "js_or x y = (if truthy x then x else y)"

text \<open>The same on an optional string parameter (\<^verbatim>\<open>apiUrl || '...'\<close>).\<close>

definition or_default :: "string option \<Rightarrow> string \<Rightarrow> string" where
  "or_default x d = (case x of None \<Rightarrow> d | Some s \<Rightarrow> if s = [] then d else s)"

fun join_comma :: "string list \<Rightarrow> string" where
  "join_comma [] = []"
| "join_comma [s] = s"
| "join_comma (s # t # ts) = s @ '','' @ join_comma (t # ts)"

text \<open>
  ToString, as a template literal \<^verbatim>\<open>`${v}`\<close> applies it. How a number prints is the
  runtime's business and is taken as the parameter \<open>nts\<close>.
\<close>

fun to_string :: "(rat \<Rightarrow> string) \<Rightarrow> jsval \<Rightarrow> string" where
  "to_string nts JUndefined = ''undefined''"
| "to_string nts JNull = ''null''"
| "to_string nts (JBool b) = (if b then ''true'' else ''false'')"
| "to_string nts (JNum x) = nts x"
| "to_string nts (JStr s) = s"
| "to_string nts (JArr xs) =
     join_comma (map (\<lambda>x. if x = JUndefined \<or> x = JNull then [] else to_string nts x) xs)"
| "to_string nts (JObj ps) = ''[object Object]''"

section \<open>Errors, results and the world around the handler\<close>

text \<open>The error codes of the protocol SDK that the handler uses.\<close>

datatype error_code = MethodNotFound | InvalidParams | InternalError

text \<open>
  What a \<^verbatim>\<open>throw\<close> can carry here: a protocol error made by the handler, an error that
  \<^verbatim>\<open>axios.isAxiosError\<close> recognises (its \<^verbatim>\<open>message\<close>, and \<^verbatim>\<open>response.data\<close> when the
  error has a \<^verbatim>\<open>response\<close>), or any other error (its message).
\<close>

datatype thrown =
    McpError error_code string
  | AxiosError string "jsval option"
  | OtherError string

text \<open>
  The value the handler returns: one text block, and the \<^verbatim>\<open>isError\<close> flag (the key is
  absent from a success result, which reads as \<open>False\<close>).
\<close>

record tool_result =
  text_of :: jsval
  isError :: bool

type_synonym byte = "8 word"
type_synonym filesystem = "string \<rightharpoonup> byte list"

record http_request =
  url :: string
  body :: jsobj
  headers :: "(string \<times> string) list"

text \<open>
  The collaborators, which are not part of this repository, as parameters:
  \<^item> \<open>axios_post\<close>: what the POST gives, \<^verbatim>\<open>response.data\<close> or the error thrown;
  \<^item> \<open>fs_writeFile\<close>: \<open>None\<close> when the write succeeds, else the error's message and the
    file system the failed write leaves behind;
  \<^item> \<open>path_resolve\<close>: \<^verbatim>\<open>path.resolve\<close> on a string;
  \<^item> \<open>buffer_from_other\<close>: \<^verbatim>\<open>Buffer.from(v, 'base64')\<close> on a value that is not a
    string, the bytes or the message of the error thrown;
  \<^item> \<open>type_error_message\<close>: the message of the TypeError the runtime throws on a value
    it cannot use (a property read on \<^verbatim>\<open>null\<close>, a path that is not a string);
  \<^item> \<open>json_stringify\<close>: \<^verbatim>\<open>JSON.stringify(v, null, 2)\<close>;
  \<^item> \<open>number_to_string\<close>: how a number prints.
\<close>

record env =
  axios_post :: "http_request \<Rightarrow> thrown + jsval"
  fs_writeFile :: "filesystem \<Rightarrow> string \<Rightarrow> byte list \<Rightarrow> (string \<times> filesystem) option"
  path_resolve :: "string \<Rightarrow> string"
  buffer_from_other :: "jsval \<Rightarrow> string + byte list"
  type_error_message :: "jsval \<Rightarrow> string"
  json_stringify :: "jsval \<Rightarrow> jsval"
  number_to_string :: "rat \<Rightarrow> string"

text \<open>
  The server's configuration: the credential, the endpoint address and the defaults
  (\<^verbatim>\<open>defaultConfig\<close>, a module constant in the inline variant and a field of the server
  in the URL-forced variant; the endpoint field is \<^verbatim>\<open>apiUrl\<close> in the former and
  \<^verbatim>\<open>openaiApiUrl\<close> in the latter).
\<close>

record server =
  apiKey :: string
  apiUrl :: string
  defaultConfig :: jsobj

text \<open>
  The state a call runs in: the configuration, the POST requests issued so far and the
  files on disk.
\<close>

record world =
  srv :: server
  http_log :: "http_request list"
  files :: filesystem

text \<open>\<^verbatim>\<open>request.params\<close>: the operation name and the arguments bag.\<close>

record call_params =
  name :: string
  arguments :: jsval


section \<open>Base64, as the runtime's Buffer does it\<close>

text \<open>
  \<^verbatim>\<open>Buffer.from(s, 'base64')\<close> and its inverse \<^verbatim>\<open>buf.toString('base64')\<close> belong to
  the Node runtime. They are written out here (RFC 4648, three bytes to four characters)
  because the save path of the inline variant is only as good as the decoder it calls.
  The decoder is Node's lenient one: it also reads the URL-safe characters \<^verbatim>\<open>-\<close> and
  \<^verbatim>\<open>_\<close>, skips every other character outside the alphabet, stops at the first \<^verbatim>\<open>=\<close>,
  and turns a trailing group of two or three characters into one or two bytes.
\<close>

definition b64_alphabet :: string where
  "b64_alphabet = ''ABCDEFGHIJKLMNOPQRSTUVWXYZabcdefghijklmnopqrstuvwxyz0123456789+/''"

definition b64_char :: "nat \<Rightarrow> char" where
  "b64_char i = b64_alphabet ! i"

fun base64_encode :: "byte list \<Rightarrow> string" where
  "base64_encode (a # b # c # rest) =
     (let n = unat a * 65536 + unat b * 256 + unat c
      in [b64_char (n div 262144), b64_char (n div 4096 mod 64),
          b64_char (n div 64 mod 64), b64_char (n mod 64)] @ base64_encode rest)"
| "base64_encode [a, b] =
     (let n = unat a * 65536 + unat b * 256
      in [b64_char (n div 262144), b64_char (n div 4096 mod 64),
          b64_char (n div 64 mod 64), CHR ''=''])"
| "base64_encode [a] =
     (let n = unat a * 65536
      in [b64_char (n div 262144), b64_char (n div 4096 mod 64), CHR ''='', CHR ''=''])"
| "base64_encode [] = []"

definition unbase64 :: "char \<Rightarrow> nat option" where
  "unbase64 c =
     (if c = CHR ''-'' then Some 62
      else if c = CHR ''_'' then Some 63
      else map_of (zip b64_alphabet [0..<64]) c)"

fun decode_groups :: "nat list \<Rightarrow> byte list" where
  "decode_groups (a # b # c # d # rest) =
     (let n = a * 262144 + b * 4096 + c * 64 + d
      in [of_nat (n div 65536), of_nat (n div 256 mod 256), of_nat (n mod 256)]
         @ decode_groups rest)"
| "decode_groups [a, b, c] =
     (let n = a * 262144 + b * 4096 + c * 64
      in [of_nat (n div 65536), of_nat (n div 256 mod 256)])"
| "decode_groups [a, b] =
     (let n = a * 262144 + b * 4096 in [of_nat (n div 65536)])"
| "decode_groups [a] = []"
| "decode_groups [] = []"

definition sextets :: "string \<Rightarrow> nat list" where
  "sextets s = List.map_filter unbase64 (takeWhile (\<lambda>c. c \<noteq> CHR ''='') s)"

definition base64_decode :: "string \<Rightarrow> byte list" where
  "base64_decode s = decode_groups (sextets s)"

section \<open>The server and its tool handler\<close>

subsection \<open>Construction\<close>

text \<open>
  The inline variant (the older source file): \<^verbatim>\<open>defaultConfig\<close> is a module constant,
  the constructor takes the key and an optional endpoint and throws on an empty key.
\<close>

definition defaultConfig_inline :: jsobj where
  "defaultConfig_inline =
     [(''model'', JStr ''black-forest-labs/FLUX.1-schnell-Free''),
      (''width'', JNum 1024),
      (''height'', JNum 768),
      (''steps'', JNum 1),
      (''n'', JNum 1),
      (''response_format'', JStr ''b64_json'')]"

definition new_server_inline :: "string \<Rightarrow> string option \<Rightarrow> string + server" where
  "new_server_inline key endpoint =
     (if key = [] then Inl ''OPENAI_API_KEY is required''
      else Inr \<lparr>apiKey = key,
                apiUrl = or_default endpoint ''https://api.openai.com/v1/images/generations'',
                defaultConfig = defaultConfig_inline\<rparr>)"

text \<open>
  The URL-forced variant: the defaults are built in the constructor, without
  \<^verbatim>\<open>response_format\<close> and with the model taken from the optional third parameter.
\<close>

definition baseDefaultConfig :: jsobj where
  "baseDefaultConfig =
     [(''width'', JNum 1024), (''height'', JNum 768), (''steps'', JNum 1), (''n'', JNum 1)]"

definition new_server_url :: "string \<Rightarrow> string option \<Rightarrow> string option \<Rightarrow> string + server" where
  "new_server_url key endpoint defaultModel =
     (if key = [] then Inl ''OPENAI_API_KEY is required''
      else Inr \<lparr>apiKey = key,
                apiUrl = or_default endpoint ''https://api.openai.com/v1/images/generations'',
                defaultConfig =
                  AList.update ''model''
                    (JStr (or_default defaultModel ''black-forest-labs/FLUX.1-schnell-Free''))
                    baseDefaultConfig\<rparr>)"

subsection \<open>The request body\<close>

text \<open>
  The object literal \<^verbatim>\<open>{ ...defaultConfig, prompt: ..., ...(args.model && {model: ...}), ... }\<close>,
  property by property in the order of the source.
\<close>

definition requestBody_inline :: "jsobj \<Rightarrow> jsval \<Rightarrow> jsobj" where
  "requestBody_inline dc args =
     (let b0 = dc;
          b1 = AList.update ''prompt'' (get_field args ''prompt'') b0;
          b2 = spread_if ''model'' (get_field args ''model'') b1;
          b3 = spread_if ''width'' (get_field args ''width'') b2;
          b4 = spread_if ''height'' (get_field args ''height'') b3;
          b5 = spread_if ''steps'' (get_field args ''steps'') b4;
          b6 = spread_if ''n'' (get_field args ''n'') b5;
          b7 = spread_if ''response_format'' (get_field args ''response_format'') b6
      in b7)"

definition requestBody_url :: "jsobj \<Rightarrow> jsval \<Rightarrow> jsobj" where
  "requestBody_url dc args =
     (let b0 = dc;
          b1 = AList.update ''prompt'' (get_field args ''prompt'') b0;
          b2 = spread_if ''model'' (get_field args ''model'') b1;
          b3 = spread_if ''width'' (get_field args ''width'') b2;
          b4 = spread_if ''height'' (get_field args ''height'') b3;
          b5 = spread_if ''steps'' (get_field args ''steps'') b4;
          b6 = spread_if ''n'' (get_field args ''n'') b5;
          b7 = AList.update ''response_format'' (JStr ''url'') b6
      in b7)"

text \<open>The POST: endpoint, body, and the two headers.\<close>

definition post_request :: "server \<Rightarrow> jsobj \<Rightarrow> http_request" where
  "post_request s b =
     \<lparr>url = apiUrl s, body = b,
      headers = [(''Authorization'', ''Bearer '' @ apiKey s),
                 (''Content-Type'', ''application/json'')]\<rparr>"

subsection \<open>The catch block\<close>

text \<open>
  \<^verbatim>\<open>catch (error) { if (axios.isAxiosError(error)) return {..., isError: true}; throw error; }\<close>
  with the text \<^verbatim>\<open>`API Error: ${error.response?.data?.message || error.message}`\<close>;
  \<open>downstream_message\<close> is \<^verbatim>\<open>error.response?.data?.message\<close>.
\<close>

definition downstream_message :: "jsval option \<Rightarrow> jsval" where
  "downstream_message resp =
     opt_field (case resp of None \<Rightarrow> JUndefined | Some d \<Rightarrow> d) ''message''"

definition catch_block :: "env \<Rightarrow> thrown \<Rightarrow> thrown + tool_result" where
  "catch_block e err =
     (case err of
        AxiosError msg resp \<Rightarrow>
          Inr \<lparr>text_of =
                 JStr (''API Error: '' @
                   to_string (number_to_string e)
                     (js_or (downstream_message resp) (JStr msg))),
               isError = True\<rparr>
      | _ \<Rightarrow> Inl err)"

subsection \<open>The URL-forced handler\<close>

definition callToolHandler_url ::
  "env \<Rightarrow> world \<Rightarrow> call_params \<Rightarrow> (thrown + tool_result) \<times> world" where
  "callToolHandler_url e w rq =
     (if name rq \<noteq> ''generate_image''
      then (Inl (McpError MethodNotFound (''Unknown tool: '' @ name rq)), w)
      else if \<not> truthy (arguments rq) \<or> typeof (arguments rq) \<noteq> ''object''
      then (Inl (McpError InvalidParams ''Invalid arguments provided''), w)
      else if \<not> has_prop ''prompt'' (arguments rq)
              \<or> typeof (get_field (arguments rq) ''prompt'') \<noteq> ''string''
      then (Inl (McpError InvalidParams ''Prompt is required and must be a string''), w)
      else
        let requestBody = requestBody_url (defaultConfig (srv w)) (arguments rq);
            rq_out = post_request (srv w) requestBody;
            w' = w\<lparr>http_log := http_log w @ [rq_out]\<rparr>
        in case axios_post e rq_out of
             Inl err \<Rightarrow> (catch_block e err, w')
           | Inr data \<Rightarrow>
               (let imageUrl = opt_field (opt_index0 (opt_field data ''data'')) ''url''
                in if \<not> truthy imageUrl
                   then (catch_block e
                           (McpError InternalError
                              ''API response did not contain an image URL.''), w')
                   else (Inr \<lparr>text_of = imageUrl, isError = False\<rparr>, w')))"

subsection \<open>The inline handler, with the optional save\<close>

text \<open>
  The inner \<^verbatim>\<open>try\<close>: decode, resolve the path, write. \<open>Inl\<close> is the message of the error
  caught by the inner \<^verbatim>\<open>catch\<close>, with the file system as the failure left it.
\<close>

definition save_image ::
  "env \<Rightarrow> filesystem \<Rightarrow> jsval \<Rightarrow> jsval \<Rightarrow> (string \<times> filesystem) + (string \<times> filesystem)" where
  "save_image e fs b64 image_path =
     (case (case b64 of JStr s \<Rightarrow> Inr (base64_decode s) | _ \<Rightarrow> buffer_from_other e b64) of
        Inl m \<Rightarrow> Inl (m, fs)
      | Inr imageBuffer \<Rightarrow>
          (case image_path of
             JStr p \<Rightarrow>
               (let outputPath = path_resolve e p
                in case fs_writeFile e fs outputPath imageBuffer of
                     Some (m, fs') \<Rightarrow> Inl (m, fs')
                   | None \<Rightarrow> Inr (outputPath, fs(outputPath \<mapsto> imageBuffer)))
           | _ \<Rightarrow> Inl (type_error_message e image_path, fs)))"

definition callToolHandler_inline ::
  "env \<Rightarrow> world \<Rightarrow> call_params \<Rightarrow> (thrown + tool_result) \<times> world" where
  "callToolHandler_inline e w rq =
     (if name rq \<noteq> ''generate_image''
      then (Inl (McpError MethodNotFound (''Unknown tool: '' @ name rq)), w)
      else if \<not> truthy (arguments rq) \<or> typeof (arguments rq) \<noteq> ''object''
      then (Inl (McpError InvalidParams ''Invalid arguments provided''), w)
      else if \<not> has_prop ''prompt'' (arguments rq)
              \<or> typeof (get_field (arguments rq) ''prompt'') \<noteq> ''string''
      then (Inl (McpError InvalidParams ''Prompt is required and must be a string''), w)
      else
        let requestBody = requestBody_inline (defaultConfig (srv w)) (arguments rq);
            rq_out = post_request (srv w) requestBody;
            w' = w\<lparr>http_log := http_log w @ [rq_out]\<rparr>
        in case axios_post e rq_out of
             Inl err \<Rightarrow> (catch_block e err, w')
           | Inr data \<Rightarrow>
               (let image_path = get_field (arguments rq) ''image_path'';
                    plain = (Inr \<lparr>text_of = json_stringify e data, isError = False\<rparr>, w')
                in if \<not> truthy image_path then plain
                   else if data = JUndefined \<or> data = JNull
                   then (catch_block e (OtherError (type_error_message e data)), w')
                   else if \<not> truthy (opt_field (opt_index0 (get_field data ''data'')) ''b64_json'')
                   then plain
                   else
                     (case save_image e (files w')
                             (opt_field (opt_index0 (get_field data ''data'')) ''b64_json'')
                             image_path of
                        Inr (outputPath, fs') \<Rightarrow>
                          (Inr \<lparr>text_of =
                                  JStr (''Image saved successfully to: '' @ outputPath
                                        @ [CHR 0x0A, CHR 0x0A]
                                        @ to_string (number_to_string e) (json_stringify e data)),
                                isError = False\<rparr>,
                           w'\<lparr>files := fs'\<rparr>)
                      | Inl (m, fs') \<Rightarrow>
                          (catch_block e
                             (McpError InternalError (''Failed to save image: '' @ m)),
                           w'\<lparr>files := fs'\<rparr>))))"


section \<open>What the specification says, as predicates\<close>

text \<open>
  An arguments bag is acceptable when it is a structured object whose \<^verbatim>\<open>prompt\<close> is
  text; \<open>prompt_of\<close> gives that text.
\<close>

fun prompt_of :: "jsval \<Rightarrow> string option" where
  "prompt_of (JObj ps) = (case map_of ps ''prompt'' of Some (JStr p) \<Rightarrow> Some p | _ \<Rightarrow> None)"
| "prompt_of v = None"

text \<open>The optional numeric fields.\<close>

definition numeric_fields :: "string list" where
  "numeric_fields = [''width'', ''height'', ''steps'', ''n'']"

text \<open>
  The declared constraints of a GenerationRequest: \<^verbatim>\<open>prompt\<close> non-empty text,
  \<^verbatim>\<open>width\<close> and \<^verbatim>\<open>height\<close> in [128, 2048], \<^verbatim>\<open>steps\<close> in [1, 100], \<^verbatim>\<open>n\<close> in [1, 4].
\<close>

definition in_range :: "rat \<Rightarrow> rat \<Rightarrow> jsval \<Rightarrow> bool" where
  "in_range lo hi v = (case v of JNum x \<Rightarrow> lo \<le> x \<and> x \<le> hi | _ \<Rightarrow> False)"

definition field_ok :: "string \<Rightarrow> jsval \<Rightarrow> bool" where
  "field_ok k v =
     (if k = ''prompt'' then (case v of JStr s \<Rightarrow> s \<noteq> [] | _ \<Rightarrow> False)
      else if k = ''width'' \<or> k = ''height'' then in_range 128 2048 v
      else if k = ''steps'' then in_range 1 100 v
      else if k = ''n'' then in_range 1 4 v
      else True)"

definition payload_ok :: "jsobj \<Rightarrow> bool" where
  "payload_ok b = list_all (\<lambda>(k, v). field_ok k v) b"

text \<open>
  What the request body does hold, for a bag with the text prompt \<open>p\<close> over the defaults
  \<open>dc\<close>: the prompt as given; for each optional numeric field the caller's value when
  it is truthy and else the default, which meets its constraint; so the payload meets the
  declared constraints exactly when the prompt is not empty and every truthy value the
  caller supplied meets its own.
\<close>

definition payload_invariant :: "jsobj \<Rightarrow> jsval \<Rightarrow> string \<Rightarrow> jsobj \<Rightarrow> bool" where
  "payload_invariant dc args p b \<longleftrightarrow>
     map_of b ''prompt'' = Some (JStr p)
     \<and> list_all (\<lambda>f. map_of b f =
                       (if truthy (get_field args f) then Some (get_field args f)
                        else map_of dc f)
                     \<and> (case map_of dc f of Some d \<Rightarrow> field_ok f d | None \<Rightarrow> False))
          numeric_fields
     \<and> (payload_ok b \<longleftrightarrow>
          p \<noteq> [] \<and> list_all (\<lambda>f. truthy (get_field args f) \<longrightarrow> field_ok f (get_field args f))
                       numeric_fields)"

text \<open>The requests a call added to the log.\<close>

definition issued :: "world \<Rightarrow> world \<Rightarrow> http_request list" where
  "issued w w' = drop (length (http_log w)) (http_log w')"

text \<open>
  The first image entry's \<^verbatim>\<open>url\<close> and \<^verbatim>\<open>b64_json\<close>, as the two handlers read them
  from \<^verbatim>\<open>response.data\<close>.
\<close>

definition first_url :: "jsval \<Rightarrow> jsval" where
  "first_url d = opt_field (opt_index0 (opt_field d ''data'')) ''url''"

definition first_b64 :: "jsval \<Rightarrow> jsval" where
  "first_b64 d = opt_field (opt_index0 (get_field d ''data'')) ''b64_json''"

section \<open>Fixtures for concrete runs\<close>

text \<open>
  A downstream double: the POST answers \<open>r\<close>, writes succeed unless \<open>wfail\<close> names a
  failure, paths are absolute already.
\<close>

definition test_env ::
  "(thrown + jsval) \<Rightarrow> (string \<times> filesystem) option \<Rightarrow> env" where
  "test_env r wfail =
     \<lparr>axios_post = (\<lambda>q. r),
      fs_writeFile = (\<lambda>fs p bs. wfail),
      path_resolve = (\<lambda>p. p),
      buffer_from_other = (\<lambda>v. Inl ''The first argument must be of type string''),
      type_error_message = (\<lambda>v. ''TypeError''),
      json_stringify = (\<lambda>v. JStr ''{}''),
      number_to_string = (\<lambda>x. ''0'')\<rparr>"

definition test_server_inline :: server where
  "test_server_inline =
     \<lparr>apiKey = ''sk-test'',
      apiUrl = ''https://api.openai.com/v1/images/generations'',
      defaultConfig = defaultConfig_inline\<rparr>"

definition test_server_url :: server where
  "test_server_url =
     \<lparr>apiKey = ''sk-test'',
      apiUrl = ''https://api.openai.com/v1/images/generations'',
      defaultConfig =
        [(''width'', JNum 1024), (''height'', JNum 768), (''steps'', JNum 1), (''n'', JNum 1),
         (''model'', JStr ''black-forest-labs/FLUX.1-schnell-Free'')]\<rparr>"

definition test_world :: "server \<Rightarrow> world" where
  "test_world s = \<lparr>srv = s, http_log = [], files = Map.empty\<rparr>"

definition call :: "jsobj \<Rightarrow> call_params" where
  "call ps = \<lparr>name = ''generate_image'', arguments = JObj ps\<rparr>"


section \<open>Base64: decoding undoes encoding\<close>

lemma len64: "length b64_alphabet = 64"
  by (simp add: b64_alphabet_def)

lemma dist64: "distinct b64_alphabet"
  by (simp add: b64_alphabet_def)

lemma unbase64_b64_char: "i < 64 \<Longrightarrow> unbase64 (b64_char i) = Some i"
proof -
  assume i: "i < 64"
  have mem: "b64_char i \<in> set b64_alphabet"
    unfolding b64_char_def using i len64 by (metis nth_mem)
  have "CHR ''-'' \<notin> set b64_alphabet" "CHR ''_'' \<notin> set b64_alphabet"
    by (simp_all add: b64_alphabet_def)
  with mem have ne: "b64_char i \<noteq> CHR ''-''" "b64_char i \<noteq> CHR ''_''" by auto
  have "map_of (zip b64_alphabet [0..<64]) (b64_alphabet ! i) = Some ([0..<64] ! i)"
    by (rule map_of_zip_nth) (use i len64 dist64 in simp_all)
  with ne i show ?thesis by (simp add: unbase64_def b64_char_def)
qed

lemma b64_char_not_pad: "i < 64 \<Longrightarrow> b64_char i \<noteq> CHR ''=''"
proof -
  assume i: "i < 64"
  have mem: "b64_char i \<in> set b64_alphabet"
    unfolding b64_char_def using i len64 by (metis nth_mem)
  have "CHR ''='' \<notin> set b64_alphabet" by (simp add: b64_alphabet_def)
  with mem show ?thesis by auto
qed

lemma sextets_Nil: "sextets [] = []"
  by (simp add: sextets_def)

lemma sextets_pad: "sextets (CHR ''='' # s) = []"
  by (simp add: sextets_def)
lemma sextets_char: "i < 64 \<Longrightarrow> sextets (b64_char i # s) = i # sextets s"
  by (simp add: sextets_def unbase64_b64_char b64_char_not_pad)


lemma recombine24:
  "n div 262144 * 262144 + n div 4096 mod 64 * 4096 + n div 64 mod 64 * 64 + n mod 64 = (n::nat)"
proof -
  have 1: "n div 64 * 64 + n mod 64 = n" by simp
  have "n div 64 div 64 * 64 + n div 64 mod 64 = n div 64" by simp
  then have 2: "n div 4096 * 64 + n div 64 mod 64 = n div 64"
    by (simp add: div_mult2_eq[symmetric])
  have "n div 4096 div 64 * 64 + n div 4096 mod 64 = n div 4096" by simp
  then have 3: "n div 262144 * 64 + n div 4096 mod 64 = n div 4096"
    by (simp add: div_mult2_eq[symmetric])
  from 1 2 3 show ?thesis by linarith
qed

lemma sextet_bound:
  fixes a b c :: nat
  assumes "a < 256" "b < 256" "c < 256"
  shows "(a * 65536 + b * 256 + c) div 262144 < 64"
proof -
  have "a * 65536 + b * 256 + c < 64 * 262144" using assms by linarith
  then show ?thesis by (simp add: less_mult_imp_div_less)
qed


lemma div_mod_pair:
  fixes m c :: nat
  assumes "c < q"
  shows "(m * q + c) div q = m" and "(m * q + c) mod q = c"
  using assms by simp_all

lemma bytes24:
  fixes a b c :: nat
  assumes "b < 256" "c < 256"
  shows "(a * 65536 + b * 256 + c) div 65536 = a"
    and "(a * 65536 + b * 256 + c) div 256 mod 256 = b"
    and "(a * 65536 + b * 256 + c) mod 256 = c"
proof -
  have bc: "b * 256 + c < 65536" using assms by linarith
  have "a * 65536 + b * 256 + c = a * 65536 + (b * 256 + c)" by simp
  then show "(a * 65536 + b * 256 + c) div 65536 = a"
    using div_mod_pair(1)[OF bc, of a] by simp
  have e: "a * 65536 + b * 256 + c = (a * 256 + b) * 256 + c" by simp
  show "(a * 65536 + b * 256 + c) mod 256 = c"
    unfolding e using div_mod_pair(2)[OF assms(2)] by blast
  have "(a * 65536 + b * 256 + c) div 256 = a * 256 + b"
    unfolding e using div_mod_pair(1)[OF assms(2)] by blast
  then show "(a * 65536 + b * 256 + c) div 256 mod 256 = b"
    using div_mod_pair(2)[OF assms(1), of a] by simp
qed

lemma group3:
  fixes a b c :: byte
  defines "n \<equiv> unat a * 65536 + unat b * 256 + unat c"
  shows "decode_groups (n div 262144 # n div 4096 mod 64 # n div 64 mod 64 # n mod 64 # r)
         = a # b # c # decode_groups r"
proof -
  have lt: "unat a < 256" "unat b < 256" "unat c < 256"
    using unsigned_less[of a] unsigned_less[of b] unsigned_less[of c] by simp_all
  have "n div 262144 * 262144 + n div 4096 mod 64 * 4096 + n div 64 mod 64 * 64 + n mod 64 = n"
    by (rule recombine24)
  moreover have "n div 65536 = unat a" "n div 256 mod 256 = unat b" "n mod 256 = unat c"
    unfolding n_def using bytes24[OF lt(2) lt(3)] by blast+
  ultimately show ?thesis by (simp add: Let_def)
qed


lemma group2:
  fixes a b :: byte
  defines "n \<equiv> unat a * 65536 + unat b * 256"
  shows "decode_groups [n div 262144, n div 4096 mod 64, n div 64 mod 64] = [a, b]"
proof -
  have lt: "unat a < 256" "unat b < 256"
    using unsigned_less[of a] unsigned_less[of b] by simp_all
  have "n = (unat a * 1024 + unat b * 4) * 64" by (simp add: n_def)
  then have z: "n mod 64 = 0" by simp
  have "n div 262144 * 262144 + n div 4096 mod 64 * 4096 + n div 64 mod 64 * 64 + n mod 64 = n"
    by (rule recombine24)
  with z have m: "n div 262144 * 262144 + n div 4096 mod 64 * 4096 + n div 64 mod 64 * 64 = n"
    by simp
  have "n div 65536 = unat a" "n div 256 mod 256 = unat b"
    unfolding n_def using bytes24(1,2)[OF lt(2), of 0 "unat a"] by simp_all
  with m show ?thesis by (simp add: Let_def)
qed

lemma group1:
  fixes a :: byte
  defines "n \<equiv> unat a * 65536"
  shows "decode_groups [n div 262144, n div 4096 mod 64] = [a]"
proof -
  have "n = (unat a * 1024) * 64" by (simp add: n_def)
  then have z: "n mod 64 = 0" "n div 64 = unat a * 1024" by simp_all
  have "unat a * 1024 = (unat a * 16) * 64" by simp
  then have z2: "n div 64 mod 64 = 0" unfolding z(2) by (metis mod_mult_self2_is_0)
  have "n div 262144 * 262144 + n div 4096 mod 64 * 4096 + n div 64 mod 64 * 64 + n mod 64 = n"
    by (rule recombine24)
  with z z2 have m: "n div 262144 * 262144 + n div 4096 mod 64 * 4096 = n"
    by simp
  have "n div 65536 = unat a" unfolding n_def by simp
  with m show ?thesis by (simp add: Let_def)
qed

lemma sextet_lt:
  fixes a b c :: byte
  shows "(unat a * 65536 + unat b * 256 + unat c) div 262144 < 64"
    and "(unat a * 65536 + unat b * 256) div 262144 < 64"
    and "(unat a * 65536) div 262144 < 64"
proof -
  have lt: "unat a < 256" "unat b < 256" "unat c < 256"
    using unsigned_less[of a] unsigned_less[of b] unsigned_less[of c] by simp_all
  show "(unat a * 65536 + unat b * 256 + unat c) div 262144 < 64"
    by (rule sextet_bound) (rule lt)+
  show "(unat a * 65536 + unat b * 256) div 262144 < 64"
    using sextet_bound[OF lt(1) lt(2), of 0] by simp
  show "(unat a * 65536) div 262144 < 64"
    using sextet_bound[OF lt(1), of 0 0] by simp
qed


lemma sextets_char_mod: "sextets (b64_char (k mod 64) # s) = k mod 64 # sextets s"
  by (simp add: sextets_char)

lemma sextets_encode: "decode_groups (sextets (base64_encode bs)) = bs"
proof (induction bs rule: base64_encode.induct)
  case (1 a b c rest)
  define n where "n = unat a * 65536 + unat b * 256 + unat c"
  have lt: "n div 262144 < 64" unfolding n_def by (rule sextet_lt)
  have "base64_encode (a # b # c # rest) =
          b64_char (n div 262144) # b64_char (n div 4096 mod 64) #
          b64_char (n div 64 mod 64) # b64_char (n mod 64) # base64_encode rest"
    by (simp only: base64_encode.simps Let_def n_def append_Cons append_Nil)
  then have "sextets (base64_encode (a # b # c # rest)) =
          n div 262144 # n div 4096 mod 64 # n div 64 mod 64 # n mod 64
          # sextets (base64_encode rest)"
    by (simp only: sextets_char[OF lt] sextets_char_mod)
  then show ?case
    unfolding n_def by (simp only: group3 "1.IH")
next
  case (2 a b)
  define n where "n = unat a * 65536 + unat b * 256"
  have lt: "n div 262144 < 64" unfolding n_def by (rule sextet_lt)
  have "base64_encode [a, b] =
          [b64_char (n div 262144), b64_char (n div 4096 mod 64),
           b64_char (n div 64 mod 64), CHR ''='']"
    by (simp only: base64_encode.simps Let_def n_def)
  then have "sextets (base64_encode [a, b]) =
          [n div 262144, n div 4096 mod 64, n div 64 mod 64]"
    by (simp only: sextets_char[OF lt] sextets_char_mod sextets_pad)
  then show ?case
    unfolding n_def by (simp only: group2)
next
  case (3 a)
  define n where "n = unat a * 65536"
  have lt: "n div 262144 < 64" unfolding n_def by (rule sextet_lt)
  have "base64_encode [a] =
          [b64_char (n div 262144), b64_char (n div 4096 mod 64), CHR ''='', CHR ''='']"
    by (simp only: base64_encode.simps Let_def n_def)
  then have "sextets (base64_encode [a]) = [n div 262144, n div 4096 mod 64]"
    by (simp only: sextets_char[OF lt] sextets_char_mod sextets_pad)
  then show ?case
    unfolding n_def by (simp only: group1)
next
  case 4
  show ?case by (simp add: sextets_Nil)
qed

lemma base64_decode_encode: "base64_decode (base64_encode bs) = bs"
  by (simp add: base64_decode_def sextets_encode)

lemma base64_encode_empty: "base64_encode bs = [] \<longleftrightarrow> bs = []"
  by (induction bs rule: base64_encode.induct) (simp_all add: Let_def)


section \<open>The handler, path by path\<close>

lemma prompt_of_Some:
  "prompt_of a = Some p \<longleftrightarrow>
     truthy a \<and> typeof a = ''object'' \<and> has_prop ''prompt'' a \<and> get_field a ''prompt'' = JStr p"
  by (cases a) (auto split: option.splits jsval.splits)

lemma prompt_of_None:
  "prompt_of a = None \<longleftrightarrow>
     \<not> truthy a \<or> typeof a \<noteq> ''object'' \<or> \<not> has_prop ''prompt'' a
     \<or> typeof (get_field a ''prompt'') \<noteq> ''string''"
  by (cases a) (auto split: option.splits jsval.splits)

lemma catch_block_Mcp: "catch_block e (McpError c m) = Inl (McpError c m)"
  by (simp add: catch_block_def)

lemma catch_block_Other: "catch_block e (OtherError m) = Inl (OtherError m)"
  by (simp add: catch_block_def)

text \<open>Past routing and validation, the URL-forced handler is its \<^verbatim>\<open>try\<close> block.\<close>

lemma url_valid:
  assumes "name rq = ''generate_image''" and "prompt_of (arguments rq) = Some p"
  shows "callToolHandler_url e w rq =
    (let rq_out = post_request (srv w) (requestBody_url (defaultConfig (srv w)) (arguments rq));
         w' = w\<lparr>http_log := http_log w @ [rq_out]\<rparr>
     in case axios_post e rq_out of
          Inl err \<Rightarrow> (catch_block e err, w')
        | Inr data \<Rightarrow>
            (if truthy (first_url data)
             then (Inr \<lparr>text_of = first_url data, isError = False\<rparr>, w')
             else (Inl (McpError InternalError ''API response did not contain an image URL.''), w')))"
proof -
  from assms(2) have v: "truthy (arguments rq)" "typeof (arguments rq) = ''object''"
    "has_prop ''prompt'' (arguments rq)" "typeof (get_field (arguments rq) ''prompt'') = ''string''"
    by (simp_all add: prompt_of_Some)
  show ?thesis
    by (simp add: callToolHandler_url_def assms(1) v Let_def first_url_def catch_block_Mcp
        split: sum.split)
qed

text \<open>The same for the inline handler.\<close>

lemma inline_valid:
  assumes "name rq = ''generate_image''" and "prompt_of (arguments rq) = Some p"
  shows "callToolHandler_inline e w rq =
    (let rq_out = post_request (srv w) (requestBody_inline (defaultConfig (srv w)) (arguments rq));
         w' = w\<lparr>http_log := http_log w @ [rq_out]\<rparr>
     in case axios_post e rq_out of
          Inl err \<Rightarrow> (catch_block e err, w')
        | Inr data \<Rightarrow>
            (let image_path = get_field (arguments rq) ''image_path'';
                 plain = (Inr \<lparr>text_of = json_stringify e data, isError = False\<rparr>, w')
             in if \<not> truthy image_path then plain
                else if data = JUndefined \<or> data = JNull
                then (Inl (OtherError (type_error_message e data)), w')
                else if \<not> truthy (first_b64 data) then plain
                else
                  (case save_image e (files w) (first_b64 data) image_path of
                     Inr (outputPath, fs') \<Rightarrow>
                       (Inr \<lparr>text_of =
                               JStr (''Image saved successfully to: '' @ outputPath
                                     @ [CHR 0x0A, CHR 0x0A]
                                     @ to_string (number_to_string e) (json_stringify e data)),
                             isError = False\<rparr>,
                        w'\<lparr>files := fs'\<rparr>)
                   | Inl (m, fs') \<Rightarrow>
                       (Inl (McpError InternalError (''Failed to save image: '' @ m)),
                        w'\<lparr>files := fs'\<rparr>))))"
proof -
  from assms(2) have v: "truthy (arguments rq)" "typeof (arguments rq) = ''object''"
    "has_prop ''prompt'' (arguments rq)" "typeof (get_field (arguments rq) ''prompt'') = ''string''"
    by (simp_all add: prompt_of_Some)
  show ?thesis
    by (simp add: callToolHandler_inline_def assms(1) v Let_def first_b64_def catch_block_Mcp
        catch_block_Other split: sum.split prod.split)
qed

text \<open>What a call adds to the log and what it leaves alone.\<close>

lemma map_of_spread_if:
  "map_of (spread_if k x b) = (if truthy x then (map_of b)(k \<mapsto> x) else map_of b)"
  by (simp add: spread_if_def update_conv')

lemma issued_append: "http_log w' = http_log w @ rs \<Longrightarrow> issued w w' = rs"
  by (simp add: issued_def)

lemma url_issued:
  "issued w (snd (callToolHandler_url e w rq)) =
     (if name rq = ''generate_image'' \<and> prompt_of (arguments rq) \<noteq> None
      then [post_request (srv w) (requestBody_url (defaultConfig (srv w)) (arguments rq))]
      else [])"
proof (cases "name rq = ''generate_image''")
  case False
  then show ?thesis by (simp add: callToolHandler_url_def issued_def)
next
  case True
  show ?thesis
  proof (cases "prompt_of (arguments rq)")
    case None
    have "callToolHandler_url e w rq = (fst (callToolHandler_url e w rq), w)"
      using None[unfolded prompt_of_None] True
      by (auto simp add: callToolHandler_url_def)
    then have "snd (callToolHandler_url e w rq) = w" by (metis snd_conv)
    with None True show ?thesis by (simp add: issued_def)
  next
    case (Some p)
    show ?thesis
      using True Some
      by (simp add: url_valid[OF True Some] Let_def issued_def split: sum.split)
  qed
qed

lemma inline_issued:
  "issued w (snd (callToolHandler_inline e w rq)) =
     (if name rq = ''generate_image'' \<and> prompt_of (arguments rq) \<noteq> None
      then [post_request (srv w) (requestBody_inline (defaultConfig (srv w)) (arguments rq))]
      else [])"
proof (cases "name rq = ''generate_image''")
  case False
  then show ?thesis by (simp add: callToolHandler_inline_def issued_def)
next
  case True
  show ?thesis
  proof (cases "prompt_of (arguments rq)")
    case None
    have "callToolHandler_inline e w rq = (fst (callToolHandler_inline e w rq), w)"
      using None[unfolded prompt_of_None] True
      by (auto simp add: callToolHandler_inline_def)
    then have "snd (callToolHandler_inline e w rq) = w" by (metis snd_conv)
    with None True show ?thesis by (simp add: issued_def)
  next
    case (Some p)
    show ?thesis
      using True Some
      by (simp add: inline_valid[OF True Some] Let_def issued_def split: sum.split prod.split)
  qed
qed

lemma url_frame:
  "srv (snd (callToolHandler_url e w rq)) = srv w"
  "files (snd (callToolHandler_url e w rq)) = files w"
  by (simp_all add: callToolHandler_url_def Let_def split: sum.split)

lemma inline_frame:
  "srv (snd (callToolHandler_inline e w rq)) = srv w"
  by (simp add: callToolHandler_inline_def Let_def split: sum.split prod.split)


lemma prompt_of_call [simp]:
  "prompt_of (arguments (call ((''prompt'', JStr p) # ps))) = Some p"
  by (simp add: call_def)

lemma name_call: "name (call ps) = ''generate_image''"
  by (simp add: call_def)

lemma arguments_call: "arguments (call ps) = JObj ps"
  by (simp add: call_def)

lemma new_server_inline_defaults:
  "new_server_inline key ep = Inr s \<Longrightarrow> defaultConfig s = defaultConfig_inline"
  by (auto simp add: new_server_inline_def split: if_splits)

lemma new_server_url_defaults:
  "new_server_url key ep dm = Inr s \<Longrightarrow>
     defaultConfig s =
       AList.update ''model'' (JStr (or_default dm ''black-forest-labs/FLUX.1-schnell-Free''))
         baseDefaultConfig"
  by (auto simp add: new_server_url_def split: if_splits)

lemma numeric_fields_cases:
  "f \<in> set numeric_fields \<longleftrightarrow> f = ''width'' \<or> f = ''height'' \<or> f = ''steps'' \<or> f = ''n''"
  by (auto simp add: numeric_fields_def)

lemma body_inline_numeric:
  assumes "f \<in> set numeric_fields"
  shows "map_of (requestBody_inline dc args) f =
           (if truthy (get_field args f) then Some (get_field args f) else map_of dc f)"
  using assms unfolding numeric_fields_cases
  by (auto simp add: requestBody_inline_def Let_def map_of_spread_if update_conv')

lemma body_url_numeric:
  assumes "f \<in> set numeric_fields"
  shows "map_of (requestBody_url dc args) f =
           (if truthy (get_field args f) then Some (get_field args f) else map_of dc f)"
  using assms unfolding numeric_fields_cases
  by (auto simp add: requestBody_url_def Let_def map_of_spread_if update_conv')

lemma body_url_response_format:
  "map_of (requestBody_url dc args) ''response_format'' = Some (JStr ''url'')"
  by (simp add: requestBody_url_def Let_def update_conv')

lemma requestBody_url_agree:
  assumes "get_field a ''prompt'' = get_field a' ''prompt''"
      and "get_field a ''model'' = get_field a' ''model''"
      and "get_field a ''width'' = get_field a' ''width''"
      and "get_field a ''height'' = get_field a' ''height''"
      and "get_field a ''steps'' = get_field a' ''steps''"
      and "get_field a ''n'' = get_field a' ''n''"
  shows "requestBody_url dc a = requestBody_url dc a'"
  unfolding requestBody_url_def by (simp only: assms)

lemma url_handler_ignores:
  assumes "\<forall>k. k = ''image_path'' \<or> k = ''response_format'' \<or> map_of ps k = map_of ps' k"
  shows "callToolHandler_url e w \<lparr>name = nm, arguments = JObj ps\<rparr>
         = callToolHandler_url e w \<lparr>name = nm, arguments = JObj ps'\<rparr>"
proof -
  have a: "map_of ps ''prompt'' = map_of ps' ''prompt''" "map_of ps ''model'' = map_of ps' ''model''"
    "map_of ps ''width'' = map_of ps' ''width''" "map_of ps ''height'' = map_of ps' ''height''"
    "map_of ps ''steps'' = map_of ps' ''steps''" "map_of ps ''n'' = map_of ps' ''n''"
    using spec[OF assms, of "''prompt''"] spec[OF assms, of "''model''"]
      spec[OF assms, of "''width''"] spec[OF assms, of "''height''"]
      spec[OF assms, of "''steps''"] spec[OF assms, of "''n''"]
    by simp_all
  have g: "get_field (JObj ps) ''prompt'' = get_field (JObj ps') ''prompt''"
    "get_field (JObj ps) ''model'' = get_field (JObj ps') ''model''"
    "get_field (JObj ps) ''width'' = get_field (JObj ps') ''width''"
    "get_field (JObj ps) ''height'' = get_field (JObj ps') ''height''"
    "get_field (JObj ps) ''steps'' = get_field (JObj ps') ''steps''"
    "get_field (JObj ps) ''n'' = get_field (JObj ps') ''n''"
    using a by simp_all
  have b: "requestBody_url dc (JObj ps) = requestBody_url dc (JObj ps')" for dc
    by (rule requestBody_url_agree) (rule g)+
  have h: "has_prop ''prompt'' (JObj ps) = has_prop ''prompt'' (JObj ps')"
    using a(1) by simp
  show ?thesis
    unfolding callToolHandler_url_def
    by (simp only: call_params.select_convs b h g truthy.simps typeof.simps)
qed


lemma first_url_entry:
  assumes "get_field d ''data'' = JArr (entry # rest)" and "get_field entry ''url'' = u"
    and "u \<noteq> JUndefined"
  shows "first_url d = u"
proof -
  from assms(1) have d: "d \<noteq> JUndefined" "d \<noteq> JNull" by auto
  from assms(2,3) have en: "entry \<noteq> JUndefined" "entry \<noteq> JNull" by auto
  show ?thesis
    using assms d en by (simp add: first_url_def opt_field_def)
qed



lemma field_ok_other: "k \<notin> set (''prompt'' # numeric_fields) \<Longrightarrow> field_ok k v"
  by (simp add: field_ok_def numeric_fields_def)

lemma payload_ok_iff:
  assumes "distinct (map fst b)"
  shows "payload_ok b \<longleftrightarrow>
           list_all (\<lambda>k. case map_of b k of None \<Rightarrow> True | Some v \<Rightarrow> field_ok k v)
             (''prompt'' # numeric_fields)"
proof
  assume ok: "payload_ok b"
  show "list_all (\<lambda>k. case map_of b k of None \<Rightarrow> True | Some v \<Rightarrow> field_ok k v)
             (''prompt'' # numeric_fields)"
    unfolding list_all_iff
  proof
    fix k assume "k \<in> set (''prompt'' # numeric_fields)"
    show "case map_of b k of None \<Rightarrow> True | Some v \<Rightarrow> field_ok k v"
    proof (cases "map_of b k")
      case None then show ?thesis by simp
    next
      case (Some v)
      then have "(k, v) \<in> set b" by (rule map_of_SomeD)
      with ok have "field_ok k v" by (auto simp add: payload_ok_def list_all_iff)
      with Some show ?thesis by simp
    qed
  qed
next
  assume r: "list_all (\<lambda>k. case map_of b k of None \<Rightarrow> True | Some v \<Rightarrow> field_ok k v)
             (''prompt'' # numeric_fields)"
  show "payload_ok b"
    unfolding payload_ok_def list_all_iff
  proof (rule ballI, clarify)
    fix k v assume kv: "(k, v) \<in> set b"
    with assms have m: "map_of b k = Some v" by simp
    show "field_ok k v"
    proof (cases "k \<in> set (''prompt'' # numeric_fields)")
      case True
      with r have "case map_of b k of None \<Rightarrow> True | Some v \<Rightarrow> field_ok k v"
        unfolding list_all_iff by blast
      with m show ?thesis by simp
    next
      case False
      then show ?thesis by (rule field_ok_other)
    qed
  qed
qed

lemma distinct_spread_if:
  "distinct (map fst b) \<Longrightarrow> distinct (map fst (spread_if k x b))"
  by (simp add: spread_if_def distinct_update)

lemma distinct_body_inline:
  "distinct (map fst dc) \<Longrightarrow> distinct (map fst (requestBody_inline dc args))"
  by (simp add: requestBody_inline_def Let_def distinct_spread_if distinct_update)

lemma distinct_body_url:
  "distinct (map fst dc) \<Longrightarrow> distinct (map fst (requestBody_url dc args))"
  by (simp add: requestBody_url_def Let_def distinct_spread_if distinct_update)

lemma body_inline_prompt:
  "map_of (requestBody_inline dc args) ''prompt'' = Some (get_field args ''prompt'')"
  by (simp add: requestBody_inline_def Let_def map_of_spread_if update_conv')

lemma body_url_prompt:
  "map_of (requestBody_url dc args) ''prompt'' = Some (get_field args ''prompt'')"
  by (simp add: requestBody_url_def Let_def map_of_spread_if update_conv')


lemma field_ok_prompt: "field_ok ''prompt'' (JStr p) \<longleftrightarrow> p \<noteq> []"
  by (simp add: field_ok_def)

lemma payload_invariant_intro:
  assumes dist: "distinct (map fst b)"
    and pr: "map_of b ''prompt'' = Some (JStr p)"
    and num: "\<And>f. f \<in> set numeric_fields \<Longrightarrow>
                map_of b f = (if truthy (get_field args f) then Some (get_field args f)
                              else map_of dc f)"
    and dflt: "\<And>f. f \<in> set numeric_fields \<Longrightarrow> \<exists>d. map_of dc f = Some d \<and> field_ok f d"
  shows "payload_invariant dc args p b"
proof -
  have 2: "list_all (\<lambda>f. map_of b f =
                       (if truthy (get_field args f) then Some (get_field args f)
                        else map_of dc f)
                     \<and> (case map_of dc f of Some d \<Rightarrow> field_ok f d | None \<Rightarrow> False))
          numeric_fields"
    unfolding list_all_iff
  proof
    fix f assume f: "f \<in> set numeric_fields"
    from dflt[OF f] obtain d where "map_of dc f = Some d" "field_ok f d" by blast
    with num[OF f] show "map_of b f =
                       (if truthy (get_field args f) then Some (get_field args f)
                        else map_of dc f)
                     \<and> (case map_of dc f of Some d \<Rightarrow> field_ok f d | None \<Rightarrow> False)"
      by simp
  qed
  have each: "(case map_of b f of None \<Rightarrow> True | Some v \<Rightarrow> field_ok f v)
              \<longleftrightarrow> (truthy (get_field args f) \<longrightarrow> field_ok f (get_field args f))"
    if f: "f \<in> set numeric_fields" for f
  proof -
    from dflt[OF f] obtain d where "map_of dc f = Some d" "field_ok f d" by blast
    with num[OF f] show ?thesis by simp
  qed
  have "list_all (\<lambda>k. case map_of b k of None \<Rightarrow> True | Some v \<Rightarrow> field_ok k v) numeric_fields
        \<longleftrightarrow> list_all (\<lambda>f. truthy (get_field args f) \<longrightarrow> field_ok f (get_field args f))
              numeric_fields"
    unfolding list_all_iff using each by blast
  then have 3: "payload_ok b \<longleftrightarrow>
          p \<noteq> [] \<and> list_all (\<lambda>f. truthy (get_field args f) \<longrightarrow> field_ok f (get_field args f))
                       numeric_fields"
    unfolding payload_ok_iff[OF dist] by (simp add: pr field_ok_prompt)
  from pr 2 3 show ?thesis unfolding payload_invariant_def by blast
qed

lemma inline_defaults_ok:
  "distinct (map fst defaultConfig_inline)"
  "f \<in> set numeric_fields \<Longrightarrow> \<exists>d. map_of defaultConfig_inline f = Some d \<and> field_ok f d"
  unfolding numeric_fields_cases
  by (auto simp add: defaultConfig_inline_def field_ok_def in_range_def)

lemma url_defaults_ok:
  "distinct (map fst (AList.update ''model'' m baseDefaultConfig))"
  "f \<in> set numeric_fields \<Longrightarrow>
     \<exists>d. map_of (AList.update ''model'' m baseDefaultConfig) f = Some d \<and> field_ok f d"
  unfolding numeric_fields_cases
  by (auto simp add: baseDefaultConfig_def field_ok_def in_range_def)


lemma first_b64_not_nullish:
  "first_b64 d = JStr s \<Longrightarrow> d \<noteq> JUndefined \<and> d \<noteq> JNull"
  by (auto simp add: first_b64_def opt_field_def)

lemma save_image_ok:
  assumes "fs_writeFile e fs (path_resolve e path) (base64_decode s) = None"
  shows "save_image e fs (JStr s) (JStr path)
         = Inr (path_resolve e path, fs(path_resolve e path \<mapsto> base64_decode s))"
  using assms by (simp add: save_image_def Let_def)

section \<open>Routing and validation\<close>

text \<open>
  Claim C5. For every invocation whose operation name is not \<^verbatim>\<open>generate_image\<close>, both
  handlers throw a method-not-found error whose message names the operation, and leave the
  world as it was: no request is issued and no file is written.
\<close>

theorem unknown_tool_method_not_found:
  assumes "name rq \<noteq> ''generate_image''"
  shows "callToolHandler_url e w rq
           = (Inl (McpError MethodNotFound (''Unknown tool: '' @ name rq)), w)
       \<and> callToolHandler_inline e w rq
           = (Inl (McpError MethodNotFound (''Unknown tool: '' @ name rq)), w)"
  using assms by (simp add: callToolHandler_url_def callToolHandler_inline_def)

theorem unknown_tool_method_not_found_witness:
  "name \<lparr>name = ''delete_image'', arguments = JObj [(''prompt'', JStr ''a cat'')]\<rparr>
     \<noteq> ''generate_image''
   \<and> callToolHandler_url (test_env (Inr JNull) None) (test_world test_server_url)
       \<lparr>name = ''delete_image'', arguments = JObj [(''prompt'', JStr ''a cat'')]\<rparr>
     = (Inl (McpError MethodNotFound ''Unknown tool: delete_image''),
        test_world test_server_url)
   \<and> callToolHandler_inline (test_env (Inr JNull) None) (test_world test_server_url)
       \<lparr>name = ''delete_image'', arguments = JObj [(''prompt'', JStr ''a cat'')]\<rparr>
     = (Inl (McpError MethodNotFound ''Unknown tool: delete_image''),
        test_world test_server_url)"
  using unknown_tool_method_not_found
    [of "\<lparr>name = ''delete_image'', arguments = JObj [(''prompt'', JStr ''a cat'')]\<rparr>"
        "test_env (Inr JNull) None" "test_world test_server_url"]
  by simp

text \<open>
  Claim C4. An invocation of \<^verbatim>\<open>generate_image\<close> whose arguments bag is not a structured
  object with a text \<^verbatim>\<open>prompt\<close> (\<open>prompt_of\<close> finds none: the bag is absent, is a
  primitive or \<^verbatim>\<open>null\<close>, is an array, lacks \<^verbatim>\<open>prompt\<close>, or has a \<^verbatim>\<open>prompt\<close> that is
  not a string) makes both handlers throw an invalid-params error, never another code, and
  leaves the world as it was, so no request is issued. When the bag is an object or an
  array the message names the prompt.
\<close>

theorem invalid_arguments_invalid_params:
  assumes "name rq = ''generate_image''" and "prompt_of (arguments rq) = None"
  shows "callToolHandler_url e w rq =
           (Inl (McpError InvalidParams
              (case arguments rq of
                 JObj ps \<Rightarrow> ''Prompt is required and must be a string''
               | JArr xs \<Rightarrow> ''Prompt is required and must be a string''
               | _ \<Rightarrow> ''Invalid arguments provided'')), w)
       \<and> callToolHandler_inline e w rq =
           (Inl (McpError InvalidParams
              (case arguments rq of
                 JObj ps \<Rightarrow> ''Prompt is required and must be a string''
               | JArr xs \<Rightarrow> ''Prompt is required and must be a string''
               | _ \<Rightarrow> ''Invalid arguments provided'')), w)"
proof (cases "\<not> truthy (arguments rq) \<or> typeof (arguments rq) \<noteq> ''object''")
  case True
  then show ?thesis
    using assms(1)
    by (cases "arguments rq")
       (simp_all add: callToolHandler_url_def callToolHandler_inline_def)
next
  case False
  with assms(2) have bad: "\<not> has_prop ''prompt'' (arguments rq)
      \<or> typeof (get_field (arguments rq) ''prompt'') \<noteq> ''string''"
    by (simp add: prompt_of_None)
  from False bad assms(1) show ?thesis
    by (cases "arguments rq")
       (simp_all add: callToolHandler_url_def callToolHandler_inline_def)
qed

theorem invalid_arguments_invalid_params_witness:
  "name (call [(''prompt'', JNum 7), (''width'', JNum 512)]) = ''generate_image''
   \<and> prompt_of (arguments (call [(''prompt'', JNum 7), (''width'', JNum 512)])) = None
   \<and> callToolHandler_url (test_env (Inr JNull) None) (test_world test_server_url)
        (call [(''prompt'', JNum 7), (''width'', JNum 512)])
     = (Inl (McpError InvalidParams ''Prompt is required and must be a string''),
        test_world test_server_url)
   \<and> callToolHandler_inline (test_env (Inr JNull) None) (test_world test_server_inline)
        (call [(''prompt'', JNum 7), (''width'', JNum 512)])
     = (Inl (McpError InvalidParams ''Prompt is required and must be a string''),
        test_world test_server_inline)"
  using invalid_arguments_invalid_params
    [of "call [(''prompt'', JNum 7), (''width'', JNum 512)]"
        "test_env (Inr JNull) None" "test_world test_server_url"]
    invalid_arguments_invalid_params
    [of "call [(''prompt'', JNum 7), (''width'', JNum 512)]"
        "test_env (Inr JNull) None" "test_world test_server_inline"]
  by (simp add: call_def)


section \<open>The request body\<close>

text \<open>
  Claim C1. When the arguments bag holds a string \<^verbatim>\<open>prompt\<close> and nothing else, the one
  request issued carries the configured defaults with \<^verbatim>\<open>prompt\<close> added: field for
  field the defaults in the inline variant, and the defaults plus the forced
  \<^verbatim>\<open>response_format\<close> in the URL-forced variant. On a server built by the constructor
  these are model, width 1024, height 768, steps 1, n 1 (and \<^verbatim>\<open>b64_json\<close> in the inline
  variant).
\<close>

theorem prompt_only_request_is_defaults:
  "issued w (snd (callToolHandler_inline e w (call [(''prompt'', JStr p)])))
     = [post_request (srv w) (AList.update ''prompt'' (JStr p) (defaultConfig (srv w)))]
   \<and> issued w (snd (callToolHandler_url e w (call [(''prompt'', JStr p)])))
     = [post_request (srv w)
          (AList.update ''response_format'' (JStr ''url'')
             (AList.update ''prompt'' (JStr p) (defaultConfig (srv w))))]
   \<and> (new_server_inline key ep = Inr (srv w) \<longrightarrow>
        map body (issued w (snd (callToolHandler_inline e w (call [(''prompt'', JStr p)]))))
        = [[(''model'', JStr ''black-forest-labs/FLUX.1-schnell-Free''),
            (''width'', JNum 1024), (''height'', JNum 768), (''steps'', JNum 1),
            (''n'', JNum 1), (''response_format'', JStr ''b64_json''),
            (''prompt'', JStr p)]])
   \<and> (new_server_url key ep dm = Inr (srv w) \<longrightarrow>
        map body (issued w (snd (callToolHandler_url e w (call [(''prompt'', JStr p)]))))
        = [[(''width'', JNum 1024), (''height'', JNum 768), (''steps'', JNum 1),
            (''n'', JNum 1),
            (''model'', JStr (or_default dm ''black-forest-labs/FLUX.1-schnell-Free'')),
            (''prompt'', JStr p), (''response_format'', JStr ''url'')]])"
proof -
  have nm: "name (call [(''prompt'', JStr p)]) = ''generate_image''" by (simp add: call_def)
  have bi: "requestBody_inline dc (arguments (call [(''prompt'', JStr p)]))
            = AList.update ''prompt'' (JStr p) dc" for dc
    by (simp add: requestBody_inline_def call_def spread_if_def)
  have bu: "requestBody_url dc (arguments (call [(''prompt'', JStr p)]))
            = AList.update ''response_format'' (JStr ''url'') (AList.update ''prompt'' (JStr p) dc)" for dc
    by (simp add: requestBody_url_def call_def spread_if_def)
  have 1: "issued w (snd (callToolHandler_inline e w (call [(''prompt'', JStr p)])))
     = [post_request (srv w) (AList.update ''prompt'' (JStr p) (defaultConfig (srv w)))]"
    by (simp add: inline_issued nm bi)
  have 2: "issued w (snd (callToolHandler_url e w (call [(''prompt'', JStr p)])))
     = [post_request (srv w)
          (AList.update ''response_format'' (JStr ''url'')
             (AList.update ''prompt'' (JStr p) (defaultConfig (srv w))))]"
    by (simp add: url_issued nm bu)
  have 3: "defaultConfig (srv w) = defaultConfig_inline" if "new_server_inline key ep = Inr (srv w)"
    using that new_server_inline_defaults by blast
  have 4: "defaultConfig (srv w) = AList.update ''model''
                    (JStr (or_default dm ''black-forest-labs/FLUX.1-schnell-Free''))
                    baseDefaultConfig" if "new_server_url key ep dm = Inr (srv w)"
    using that new_server_url_defaults by blast
  show ?thesis
    unfolding 1 2
    by (auto simp add: 3 4 post_request_def defaultConfig_inline_def baseDefaultConfig_def)
qed

theorem prompt_only_request_is_defaults_witness:
  "issued (test_world test_server_inline)
      (snd (callToolHandler_inline (test_env (Inr JNull) None) (test_world test_server_inline)
             (call [(''prompt'', JStr ''a cat'')])))
     = [\<lparr>url = ''https://api.openai.com/v1/images/generations'',
         body = [(''model'', JStr ''black-forest-labs/FLUX.1-schnell-Free''),
                 (''width'', JNum 1024), (''height'', JNum 768), (''steps'', JNum 1),
                 (''n'', JNum 1), (''response_format'', JStr ''b64_json''),
                 (''prompt'', JStr ''a cat'')],
         headers = [(''Authorization'', ''Bearer sk-test''),
                    (''Content-Type'', ''application/json'')]\<rparr>]
   \<and> new_server_inline ''sk-test'' None = Inr (srv (test_world test_server_inline))
   \<and> issued (test_world test_server_url)
      (snd (callToolHandler_url (test_env (Inr JNull) None) (test_world test_server_url)
             (call [(''prompt'', JStr ''a cat'')])))
     = [\<lparr>url = ''https://api.openai.com/v1/images/generations'',
         body = [(''width'', JNum 1024), (''height'', JNum 768), (''steps'', JNum 1),
                 (''n'', JNum 1), (''model'', JStr ''black-forest-labs/FLUX.1-schnell-Free''),
                 (''prompt'', JStr ''a cat''), (''response_format'', JStr ''url'')],
         headers = [(''Authorization'', ''Bearer sk-test''),
                    (''Content-Type'', ''application/json'')]\<rparr>]
   \<and> new_server_url ''sk-test'' None None = Inr (srv (test_world test_server_url))"
  using prompt_only_request_is_defaults
    [of "test_world test_server_inline" "test_env (Inr JNull) None" "''a cat''"]
    prompt_only_request_is_defaults
    [of "test_world test_server_url" "test_env (Inr JNull) None" "''a cat''"]
  by (simp add: test_world_def test_server_inline_def test_server_url_def post_request_def
      defaultConfig_inline_def baseDefaultConfig_def new_server_inline_def new_server_url_def
      or_default_def)


text \<open>
  Claim C2. For each optional numeric field (\<^verbatim>\<open>width\<close>, \<^verbatim>\<open>height\<close>, \<^verbatim>\<open>steps\<close>,
  \<^verbatim>\<open>n\<close>) that the caller supplies as a number: the one request issued carries the
  supplied number when it is not zero, and the configured default when it is zero.
\<close>

theorem numeric_field_overrides_unless_zero:
  assumes "name rq = ''generate_image''"
      and "prompt_of (arguments rq) = Some p"
      and "f \<in> set numeric_fields"
      and "get_field (arguments rq) f = JNum x"
  shows "map (\<lambda>r. map_of (body r) f) (issued w (snd (callToolHandler_inline e w rq)))
           = [if x \<noteq> 0 then Some (JNum x) else map_of (defaultConfig (srv w)) f]
       \<and> map (\<lambda>r. map_of (body r) f) (issued w (snd (callToolHandler_url e w rq)))
           = [if x \<noteq> 0 then Some (JNum x) else map_of (defaultConfig (srv w)) f]"
  using assms
  by (simp add: inline_issued url_issued post_request_def body_inline_numeric body_url_numeric)

theorem numeric_field_overrides_unless_zero_witness:
  "map (\<lambda>r. map_of (body r) ''steps'')
     (issued (test_world test_server_inline)
        (snd (callToolHandler_inline (test_env (Inr JNull) None) (test_world test_server_inline)
               (call [(''prompt'', JStr ''a cat''), (''steps'', JNum 20)]))))
     = [Some (JNum 20)]
   \<and> map (\<lambda>r. map_of (body r) ''steps'')
     (issued (test_world test_server_url)
        (snd (callToolHandler_url (test_env (Inr JNull) None) (test_world test_server_url)
               (call [(''prompt'', JStr ''a cat''), (''steps'', JNum 0)]))))
     = [Some (JNum 1)]"
  using numeric_field_overrides_unless_zero
    [of "call [(''prompt'', JStr ''a cat''), (''steps'', JNum 20)]" "''a cat''" "''steps''" 20
        "test_world test_server_inline" "test_env (Inr JNull) None"]
    numeric_field_overrides_unless_zero
    [of "call [(''prompt'', JStr ''a cat''), (''steps'', JNum 0)]" "''a cat''" "''steps''" 0
        "test_world test_server_url" "test_env (Inr JNull) None"]
  by (simp add: name_call arguments_call numeric_fields_def test_world_def test_server_url_def
      test_server_inline_def defaultConfig_inline_def)


text \<open>
  Claim C6. In the URL-forced variant every request the handler issues has
  \<^verbatim>\<open>response_format\<close> equal to \<^verbatim>\<open>"url"\<close>, whatever the bag says (a valid bag issues
  exactly one such request); the handler never touches the files; and two bags that differ
  only in \<^verbatim>\<open>image_path\<close> and \<^verbatim>\<open>response_format\<close> give the same result and the same
  world, so a caller-supplied persistence path has no effect.
\<close>

theorem url_variant_forces_response_format:
  "list_all (\<lambda>r. map_of (body r) ''response_format'' = Some (JStr ''url''))
      (issued w (snd (callToolHandler_url e w rq)))
   \<and> (prompt_of (JObj ps) \<noteq> None \<longrightarrow>
        map (\<lambda>r. map_of (body r) ''response_format'')
          (issued w (snd (callToolHandler_url e w (call ps)))) = [Some (JStr ''url'')])
   \<and> files (snd (callToolHandler_url e w rq)) = files w
   \<and> ((\<forall>k. k = ''image_path'' \<or> k = ''response_format'' \<or> map_of ps k = map_of ps' k) \<longrightarrow>
        callToolHandler_url e w (call ps) = callToolHandler_url e w (call ps'))"
proof -
  have 1: "list_all (\<lambda>r. map_of (body r) ''response_format'' = Some (JStr ''url''))
      (issued w (snd (callToolHandler_url e w rq)))"
    by (simp add: url_issued post_request_def body_url_response_format)
  have 2: "map (\<lambda>r. map_of (body r) ''response_format'')
          (issued w (snd (callToolHandler_url e w (call ps)))) = [Some (JStr ''url'')]"
    if "prompt_of (JObj ps) \<noteq> None"
    using that
    by (simp add: url_issued post_request_def body_url_response_format name_call arguments_call)
  have 3: "files (snd (callToolHandler_url e w rq)) = files w"
    by (rule url_frame)
  have 4: "callToolHandler_url e w (call ps) = callToolHandler_url e w (call ps')"
    if "\<forall>k. k = ''image_path'' \<or> k = ''response_format'' \<or> map_of ps k = map_of ps' k"
    unfolding call_def by (rule url_handler_ignores) (rule that)
  from 1 2 3 4 show ?thesis by blast
qed

theorem url_variant_forces_response_format_witness:
  "prompt_of (JObj [(''prompt'', JStr ''a cat''), (''response_format'', JStr ''b64_json''),
                    (''image_path'', JStr ''/tmp/out.png'')]) \<noteq> None
   \<and> map (\<lambda>r. map_of (body r) ''response_format'')
        (issued (test_world test_server_url)
          (snd (callToolHandler_url (test_env (Inr JNull) None) (test_world test_server_url)
             (call [(''prompt'', JStr ''a cat''), (''response_format'', JStr ''b64_json''),
                    (''image_path'', JStr ''/tmp/out.png'')]))))
      = [Some (JStr ''url'')]
   \<and> callToolHandler_url (test_env (Inr JNull) None) (test_world test_server_url)
        (call [(''prompt'', JStr ''a cat''), (''response_format'', JStr ''b64_json''),
               (''image_path'', JStr ''/tmp/out.png'')])
     = callToolHandler_url (test_env (Inr JNull) None) (test_world test_server_url)
        (call [(''prompt'', JStr ''a cat'')])"
proof -
  have agree: "\<forall>k. k = ''image_path'' \<or> k = ''response_format''
      \<or> map_of [(''prompt'', JStr ''a cat''), (''response_format'', JStr ''b64_json''),
                 (''image_path'', JStr ''/tmp/out.png'')] k
        = map_of [(''prompt'', JStr ''a cat'')] k"
    by simp
  have valid: "prompt_of (JObj [(''prompt'', JStr ''a cat''), (''response_format'', JStr ''b64_json''),
                    (''image_path'', JStr ''/tmp/out.png'')]) \<noteq> None"
    by simp
  from url_variant_forces_response_format
    [of "test_world test_server_url" "test_env (Inr JNull) None"
        "call [(''prompt'', JStr ''a cat'')]"
        "[(''prompt'', JStr ''a cat''), (''response_format'', JStr ''b64_json''),
          (''image_path'', JStr ''/tmp/out.png'')]"
        "[(''prompt'', JStr ''a cat'')]"]
    agree valid
  show ?thesis by blast
qed


section \<open>Shaping the result\<close>

text \<open>
  Claim C7. In the URL-forced variant, when the POST succeeds with response data \<open>d\<close>:
  if the first image entry's \<^verbatim>\<open>url\<close> is truthy the result is one text block holding
  exactly that value, not flagged as an error (so a first entry with a non-empty address
  \<open>u\<close> gives the text \<open>u\<close>); otherwise the handler throws an internal error whose message
  says that the response did not contain an image URL.
\<close>

theorem url_variant_returns_the_address:
  assumes "name rq = ''generate_image''"
      and "prompt_of (arguments rq) = Some p"
      and "axios_post e (post_request (srv w)
             (requestBody_url (defaultConfig (srv w)) (arguments rq))) = Inr d"
  shows "fst (callToolHandler_url e w rq) =
           (if truthy (first_url d)
            then Inr \<lparr>text_of = first_url d, isError = False\<rparr>
            else Inl (McpError InternalError ''API response did not contain an image URL.''))
       \<and> (get_field d ''data'' = JArr (entry # rest) \<and> get_field entry ''url'' = JStr u
            \<and> u \<noteq> [] \<longrightarrow>
            fst (callToolHandler_url e w rq) = Inr \<lparr>text_of = JStr u, isError = False\<rparr>)"
proof -
  have 1: "fst (callToolHandler_url e w rq) =
           (if truthy (first_url d)
            then Inr \<lparr>text_of = first_url d, isError = False\<rparr>
            else Inl (McpError InternalError ''API response did not contain an image URL.''))"
    by (simp add: url_valid[OF assms(1,2)] Let_def assms(3))
  have 2: "fst (callToolHandler_url e w rq) = Inr \<lparr>text_of = JStr u, isError = False\<rparr>"
    if "get_field d ''data'' = JArr (entry # rest)" "get_field entry ''url'' = JStr u" "u \<noteq> []"
  proof -
    have "first_url d = JStr u" by (rule first_url_entry[OF that(1,2)]) simp
    with 1 that(3) show ?thesis by simp
  qed
  from 1 2 show ?thesis by blast
qed

theorem url_variant_returns_the_address_witness:
  "fst (callToolHandler_url
          (test_env (Inr (JObj [(''id'', JStr ''gen-1''),
                                (''data'', JArr [JObj [(''index'', JNum 0),
                                                       (''url'', JStr ''https://img.example/1.png'')]])]))
                    None)
          (test_world test_server_url) (call [(''prompt'', JStr ''a cat'')]))
     = Inr \<lparr>text_of = JStr ''https://img.example/1.png'', isError = False\<rparr>
   \<and> fst (callToolHandler_url
          (test_env (Inr (JObj [(''id'', JStr ''gen-1''), (''data'', JArr [])])) None)
          (test_world test_server_url) (call [(''prompt'', JStr ''a cat'')]))
     = Inl (McpError InternalError ''API response did not contain an image URL.'')"
  using url_variant_returns_the_address
    [of "call [(''prompt'', JStr ''a cat'')]" "''a cat''"
        "test_env (Inr (JObj [(''id'', JStr ''gen-1''),
                                (''data'', JArr [JObj [(''index'', JNum 0),
                                                       (''url'', JStr ''https://img.example/1.png'')]])]))
                    None"
        "test_world test_server_url"
        "JObj [(''id'', JStr ''gen-1''),
                                (''data'', JArr [JObj [(''index'', JNum 0),
                                                       (''url'', JStr ''https://img.example/1.png'')]])]"
        "JObj [(''index'', JNum 0), (''url'', JStr ''https://img.example/1.png'')]" "[]"
        "''https://img.example/1.png''"]
    url_variant_returns_the_address
    [of "call [(''prompt'', JStr ''a cat'')]" "''a cat''"
        "test_env (Inr (JObj [(''id'', JStr ''gen-1''), (''data'', JArr [])])) None"
        "test_world test_server_url"
        "JObj [(''id'', JStr ''gen-1''), (''data'', JArr [])]"]
  by (simp add: name_call test_env_def first_url_def opt_field_def)


section \<open>Downstream failures\<close>




section \<open>The configuration is only read\<close>

text \<open>
  Claim C10. A call leaves the configuration (credential, endpoint address, defaults) as
  it found it, in both variants and on every path. So a second call with the same request,
  run after the first and against any downstream behaviour, issues the same requests as
  the first; and more generally two calls with the same request in two worlds that share
  the configuration issue the same requests, whatever else differs.
\<close>

theorem configuration_is_never_changed:
  "srv (snd (callToolHandler_url e w rq)) = srv w
   \<and> srv (snd (callToolHandler_inline e w rq)) = srv w
   \<and> issued (snd (callToolHandler_url e w rq))
        (snd (callToolHandler_url e' (snd (callToolHandler_url e w rq)) rq))
      = issued w (snd (callToolHandler_url e w rq))
   \<and> issued (snd (callToolHandler_inline e w rq))
        (snd (callToolHandler_inline e' (snd (callToolHandler_inline e w rq)) rq))
      = issued w (snd (callToolHandler_inline e w rq))
   \<and> (srv w' = srv w \<longrightarrow>
        issued w' (snd (callToolHandler_url e' w' rq)) = issued w (snd (callToolHandler_url e w rq))
      \<and> issued w' (snd (callToolHandler_inline e' w' rq))
          = issued w (snd (callToolHandler_inline e w rq)))"
  by (auto simp add: url_frame inline_frame url_issued inline_issued)

theorem configuration_is_never_changed_witness:
  "srv ((test_world test_server_url)\<lparr>files := [''/tmp/old.png'' \<mapsto> [1, 2, 3]]\<rparr>)
     = srv (test_world test_server_url)
   \<and> issued ((test_world test_server_url)\<lparr>files := [''/tmp/old.png'' \<mapsto> [1, 2, 3]]\<rparr>)
        (snd (callToolHandler_url (test_env (Inl (OtherError ''socket hang up'')) None)
               ((test_world test_server_url)\<lparr>files := [''/tmp/old.png'' \<mapsto> [1, 2, 3]]\<rparr>)
               (call [(''prompt'', JStr ''a cat''), (''n'', JNum 2)])))
     = issued (test_world test_server_url)
        (snd (callToolHandler_url (test_env (Inr JNull) None) (test_world test_server_url)
               (call [(''prompt'', JStr ''a cat''), (''n'', JNum 2)])))
   \<and> map body (issued (test_world test_server_url)
        (snd (callToolHandler_url (test_env (Inr JNull) None) (test_world test_server_url)
               (call [(''prompt'', JStr ''a cat''), (''n'', JNum 2)]))))
     = [[(''width'', JNum 1024), (''height'', JNum 768), (''steps'', JNum 1), (''n'', JNum 2),
         (''model'', JStr ''black-forest-labs/FLUX.1-schnell-Free''),
         (''prompt'', JStr ''a cat''), (''response_format'', JStr ''url'')]]"
proof -
  have s: "srv ((test_world test_server_url)\<lparr>files := [''/tmp/old.png'' \<mapsto> [1, 2, 3]]\<rparr>)
     = srv (test_world test_server_url)"
    by (simp add: test_world_def)
  have b: "map body (issued (test_world test_server_url)
        (snd (callToolHandler_url (test_env (Inr JNull) None) (test_world test_server_url)
               (call [(''prompt'', JStr ''a cat''), (''n'', JNum 2)]))))
     = [[(''width'', JNum 1024), (''height'', JNum 768), (''steps'', JNum 1), (''n'', JNum 2),
         (''model'', JStr ''black-forest-labs/FLUX.1-schnell-Free''),
         (''prompt'', JStr ''a cat''), (''response_format'', JStr ''url'')]]"
    by (simp add: url_issued name_call arguments_call post_request_def requestBody_url_def
        spread_if_def test_world_def test_server_url_def)
  from configuration_is_never_changed
    [of "test_env (Inr JNull) None" "test_world test_server_url"
        "call [(''prompt'', JStr ''a cat''), (''n'', JNum 2)]"
        "test_env (Inl (OtherError ''socket hang up'')) None"
        "(test_world test_server_url)\<lparr>files := [''/tmp/old.png'' \<mapsto> [1, 2, 3]]\<rparr>"] s b
  show ?thesis by blast
qed


section \<open>The declared constraints\<close>

text \<open>
  Claim C3, as stated, says that every field of the outbound payload satisfies its
  declared constraint. The handler checks no bounds: a width of 99999 is forwarded as it
  is, and an empty prompt, being a string, passes validation and is forwarded too.
\<close>

theorem out_of_range_width_is_forwarded:
  "map (\<lambda>r. map_of (body r) ''width'')
     (issued (test_world test_server_url)
        (snd (callToolHandler_url (test_env (Inr JNull) None) (test_world test_server_url)
               (call [(''prompt'', JStr ''a cat''), (''width'', JNum 99999)]))))
     = [Some (JNum 99999)]
   \<and> map (\<lambda>r. payload_ok (body r))
     (issued (test_world test_server_url)
        (snd (callToolHandler_url (test_env (Inr JNull) None) (test_world test_server_url)
               (call [(''prompt'', JStr ''a cat''), (''width'', JNum 99999)]))))
     = [False]
   \<and> map (\<lambda>r. payload_ok (body r))
     (issued (test_world test_server_inline)
        (snd (callToolHandler_inline (test_env (Inr JNull) None) (test_world test_server_inline)
               (call [(''prompt'', JStr ''a cat''), (''width'', JNum 99999)]))))
     = [False]
   \<and> map (\<lambda>r. map_of (body r) ''prompt'')
     (issued (test_world test_server_url)
        (snd (callToolHandler_url (test_env (Inr JNull) None) (test_world test_server_url)
               (call [(''prompt'', JStr [])]))))
     = [Some (JStr [])]
   \<and> map (\<lambda>r. payload_ok (body r))
     (issued (test_world test_server_url)
        (snd (callToolHandler_url (test_env (Inr JNull) None) (test_world test_server_url)
               (call [(''prompt'', JStr [])]))))
     = [False]"
  by (simp add: url_issued inline_issued name_call arguments_call post_request_def
      requestBody_url_def requestBody_inline_def
      spread_if_def test_world_def test_server_url_def test_server_inline_def
      defaultConfig_inline_def payload_ok_def field_ok_def in_range_def)

text \<open>
  Claim C3, amended. On a server built by the constructor, the one request a valid call
  issues carries the prompt as given (text, possibly empty); each optional numeric field
  the caller omitted or gave as a falsy value carries the configured default, which
  satisfies its declared constraint; a truthy value the caller supplied is forwarded as it
  is, without a bounds check. The payload therefore satisfies the declared constraints
  exactly when the prompt is not empty and the supplied truthy values satisfy theirs.
\<close>

theorem payload_defaults_valid_supplied_forwarded:
  assumes "name rq = ''generate_image''"
      and "prompt_of (arguments rq) = Some p"
  shows "(new_server_inline key ep = Inr (srv w) \<longrightarrow>
            map body (issued w (snd (callToolHandler_inline e w rq)))
              = [requestBody_inline (defaultConfig (srv w)) (arguments rq)]
          \<and> payload_invariant (defaultConfig (srv w)) (arguments rq) p
               (requestBody_inline (defaultConfig (srv w)) (arguments rq)))
       \<and> (new_server_url key ep dm = Inr (srv w) \<longrightarrow>
            map body (issued w (snd (callToolHandler_url e w rq)))
              = [requestBody_url (defaultConfig (srv w)) (arguments rq)]
          \<and> payload_invariant (defaultConfig (srv w)) (arguments rq) p
               (requestBody_url (defaultConfig (srv w)) (arguments rq)))"
proof -
  from assms(2) have gp: "get_field (arguments rq) ''prompt'' = JStr p"
    by (simp add: prompt_of_Some)
  have i: "map body (issued w (snd (callToolHandler_inline e w rq)))
              = [requestBody_inline (defaultConfig (srv w)) (arguments rq)]"
    using assms by (simp add: inline_issued post_request_def)
  have u: "map body (issued w (snd (callToolHandler_url e w rq)))
              = [requestBody_url (defaultConfig (srv w)) (arguments rq)]"
    using assms by (simp add: url_issued post_request_def)
  have pi: "payload_invariant (defaultConfig (srv w)) (arguments rq) p
               (requestBody_inline (defaultConfig (srv w)) (arguments rq))"
    if "new_server_inline key ep = Inr (srv w)"
  proof -
    have dc: "defaultConfig (srv w) = defaultConfig_inline"
      using that by (rule new_server_inline_defaults)
    show ?thesis
      unfolding dc
    proof (rule payload_invariant_intro)
      show "distinct (map fst (requestBody_inline defaultConfig_inline (arguments rq)))"
        by (rule distinct_body_inline) (rule inline_defaults_ok(1))
      show "map_of (requestBody_inline defaultConfig_inline (arguments rq)) ''prompt''
            = Some (JStr p)"
        by (simp add: body_inline_prompt gp)
    qed (rule body_inline_numeric, assumption, rule inline_defaults_ok(2), assumption)
  qed
  have pu: "payload_invariant (defaultConfig (srv w)) (arguments rq) p
               (requestBody_url (defaultConfig (srv w)) (arguments rq))"
    if "new_server_url key ep dm = Inr (srv w)"
  proof -
    have dc: "defaultConfig (srv w) = AList.update ''model''
        (JStr (or_default dm ''black-forest-labs/FLUX.1-schnell-Free'')) baseDefaultConfig"
      using that by (rule new_server_url_defaults)
    show ?thesis
      unfolding dc
    proof (rule payload_invariant_intro)
      show "distinct (map fst (requestBody_url
              (AList.update ''model''
                 (JStr (or_default dm ''black-forest-labs/FLUX.1-schnell-Free''))
                 baseDefaultConfig) (arguments rq)))"
        by (rule distinct_body_url) (rule url_defaults_ok(1))
      show "map_of (requestBody_url
              (AList.update ''model''
                 (JStr (or_default dm ''black-forest-labs/FLUX.1-schnell-Free''))
                 baseDefaultConfig) (arguments rq)) ''prompt''
            = Some (JStr p)"
        by (simp add: body_url_prompt gp)
    qed (rule body_url_numeric, assumption, rule url_defaults_ok(2), assumption)
  qed
  from i u pi pu show ?thesis by blast
qed

theorem payload_defaults_valid_supplied_forwarded_witness:
  "new_server_inline ''sk-test'' None = Inr (srv (test_world test_server_inline))
   \<and> new_server_url ''sk-test'' None None = Inr (srv (test_world test_server_url))
   \<and> map body (issued (test_world test_server_inline)
        (snd (callToolHandler_inline (test_env (Inr JNull) None) (test_world test_server_inline)
               (call [(''prompt'', JStr ''a cat''), (''width'', JNum 512), (''n'', JNum 0)]))))
     = [requestBody_inline (defaultConfig (srv (test_world test_server_inline)))
          (arguments (call [(''prompt'', JStr ''a cat''), (''width'', JNum 512), (''n'', JNum 0)]))]
   \<and> payload_invariant (defaultConfig (srv (test_world test_server_inline)))
        (arguments (call [(''prompt'', JStr ''a cat''), (''width'', JNum 512), (''n'', JNum 0)]))
        ''a cat''
        (requestBody_inline (defaultConfig (srv (test_world test_server_inline)))
          (arguments (call [(''prompt'', JStr ''a cat''), (''width'', JNum 512), (''n'', JNum 0)])))
   \<and> payload_invariant (defaultConfig (srv (test_world test_server_url)))
        (arguments (call [(''prompt'', JStr ''a cat''), (''width'', JNum 512), (''n'', JNum 0)]))
        ''a cat''
        (requestBody_url (defaultConfig (srv (test_world test_server_url)))
          (arguments (call [(''prompt'', JStr ''a cat''), (''width'', JNum 512), (''n'', JNum 0)])))
   \<and> payload_ok (requestBody_url (defaultConfig (srv (test_world test_server_url)))
          (arguments (call [(''prompt'', JStr ''a cat''), (''width'', JNum 512), (''n'', JNum 0)])))"
proof -
  have s1: "new_server_inline ''sk-test'' None = Inr (srv (test_world test_server_inline))"
    by (simp add: new_server_inline_def test_world_def test_server_inline_def or_default_def)
  have s2: "new_server_url ''sk-test'' None None = Inr (srv (test_world test_server_url))"
    by (simp add: new_server_url_def test_world_def test_server_url_def or_default_def
        baseDefaultConfig_def)
  have n: "name (call [(''prompt'', JStr ''a cat''), (''width'', JNum 512), (''n'', JNum 0)])
           = ''generate_image''"
    by (rule name_call)
  have p: "prompt_of (arguments (call [(''prompt'', JStr ''a cat''), (''width'', JNum 512),
             (''n'', JNum 0)])) = Some ''a cat''"
    by simp
  have ok: "payload_ok (requestBody_url (defaultConfig (srv (test_world test_server_url)))
          (arguments (call [(''prompt'', JStr ''a cat''), (''width'', JNum 512), (''n'', JNum 0)])))"
    by (simp add: arguments_call requestBody_url_def spread_if_def test_world_def
        test_server_url_def payload_ok_def field_ok_def in_range_def)
  from payload_defaults_valid_supplied_forwarded
         [OF n p, of "''sk-test''" None "test_world test_server_inline" "test_env (Inr JNull) None"]
       payload_defaults_valid_supplied_forwarded
         [OF n p, of "''sk-test''" None "test_world test_server_url" "test_env (Inr JNull) None" None]
       s1 s2 ok
  show ?thesis by blast
qed


section \<open>Saving the image\<close>

text \<open>
  Claim C8, as stated, speaks of every success response with inline data, every supplied
  path and any byte sequence. The save is guarded by
  \<^verbatim>\<open>image_path && response.data.data?.[0]?.b64_json\<close>: the empty byte sequence encodes
  to the empty string, which is falsy, so nothing is written and the text is the plain
  JSON; and a write that fails ends in an internal error with no file at the path.
\<close>

theorem empty_image_is_not_saved:
  "files (snd (callToolHandler_inline
      (test_env (Inr (JObj [(''data'', JArr [JObj [(''b64_json'', JStr (base64_encode []))]])]))
         None)
      (test_world test_server_inline)
      (call [(''prompt'', JStr ''a cat''), (''image_path'', JStr ''/tmp/out.png'')])))
     ''/tmp/out.png'' = None
   \<and> fst (callToolHandler_inline
      (test_env (Inr (JObj [(''data'', JArr [JObj [(''b64_json'', JStr (base64_encode []))]])]))
         None)
      (test_world test_server_inline)
      (call [(''prompt'', JStr ''a cat''), (''image_path'', JStr ''/tmp/out.png'')]))
     = Inr \<lparr>text_of = JStr ''{}'', isError = False\<rparr>
   \<and> files (snd (callToolHandler_inline
      (test_env (Inr (JObj [(''data'', JArr [JObj [(''b64_json'', JStr (base64_encode [104, 105]))]])]))
         (Some (''ENOENT: no such file or directory'', Map.empty)))
      (test_world test_server_inline)
      (call [(''prompt'', JStr ''a cat''), (''image_path'', JStr ''/tmp/out.png'')])))
     ''/tmp/out.png'' = None
   \<and> fst (callToolHandler_inline
      (test_env (Inr (JObj [(''data'', JArr [JObj [(''b64_json'', JStr (base64_encode [104, 105]))]])]))
         (Some (''ENOENT: no such file or directory'', Map.empty)))
      (test_world test_server_inline)
      (call [(''prompt'', JStr ''a cat''), (''image_path'', JStr ''/tmp/out.png'')]))
     = Inl (McpError InternalError
             ''Failed to save image: ENOENT: no such file or directory'')"
  by (simp add: inline_valid[of _ "''a cat''"] name_call arguments_call test_env_def
      test_world_def first_b64_def opt_field_def Let_def save_image_def)

text \<open>
  Claim C8, amended. In the inline variant, when the POST succeeds, the first image
  entry's \<^verbatim>\<open>b64_json\<close> is a non-empty string \<open>s\<close>, the caller's \<^verbatim>\<open>image_path\<close> is a
  non-empty string and the write succeeds: the files afterwards are the files before with
  exactly the decoded bytes of \<open>s\<close> at the resolved path, the text starts with the
  confirmation naming the resolved path, followed by the JSON of the response, and when
  \<open>s\<close> is the encoding of the bytes \<open>bs\<close> the file read back is \<open>bs\<close>.
\<close>

theorem inline_save_writes_decoded_bytes:
  assumes "name rq = ''generate_image''"
      and "prompt_of (arguments rq) = Some p"
      and "get_field (arguments rq) ''image_path'' = JStr path" and "path \<noteq> []"
      and "axios_post e (post_request (srv w)
             (requestBody_inline (defaultConfig (srv w)) (arguments rq))) = Inr d"
      and "first_b64 d = JStr s" and "s \<noteq> []"
      and "fs_writeFile e (files w) (path_resolve e path) (base64_decode s) = None"
  shows "files (snd (callToolHandler_inline e w rq))
           = (files w)(path_resolve e path \<mapsto> base64_decode s)
       \<and> fst (callToolHandler_inline e w rq)
           = Inr \<lparr>text_of =
                    JStr (''Image saved successfully to: '' @ path_resolve e path
                          @ [CHR 0x0A, CHR 0x0A]
                          @ to_string (number_to_string e) (json_stringify e d)),
                  isError = False\<rparr>
       \<and> (s = base64_encode bs \<longrightarrow>
            files (snd (callToolHandler_inline e w rq)) (path_resolve e path) = Some bs)"
proof -
  from assms(6) have d: "d \<noteq> JUndefined" "d \<noteq> JNull"
    using first_b64_not_nullish by blast+
  have run: "callToolHandler_inline e w rq =
      (Inr \<lparr>text_of =
               JStr (''Image saved successfully to: '' @ path_resolve e path
                     @ [CHR 0x0A, CHR 0x0A]
                     @ to_string (number_to_string e) (json_stringify e d)),
             isError = False\<rparr>,
       w\<lparr>http_log := http_log w @ [post_request (srv w)
             (requestBody_inline (defaultConfig (srv w)) (arguments rq))],
         files := (files w)(path_resolve e path \<mapsto> base64_decode s)\<rparr>)"
    by (simp add: inline_valid[OF assms(1,2)] Let_def assms(3,4,5,6,7) d
        save_image_ok[OF assms(8)])
  show ?thesis
    unfolding run by (simp add: base64_decode_encode)
qed

theorem inline_save_writes_decoded_bytes_witness:
  "files (snd (callToolHandler_inline
      (test_env (Inr (JObj [(''id'', JStr ''gen-1''),
          (''data'', JArr [JObj [(''index'', JNum 0),
                                 (''b64_json'', JStr (base64_encode [104, 105]))]])])) None)
      (test_world test_server_inline)
      (call [(''prompt'', JStr ''a cat''), (''image_path'', JStr ''/tmp/out.png'')])))
     ''/tmp/out.png'' = Some [104, 105]
   \<and> fst (callToolHandler_inline
      (test_env (Inr (JObj [(''id'', JStr ''gen-1''),
          (''data'', JArr [JObj [(''index'', JNum 0),
                                 (''b64_json'', JStr (base64_encode [104, 105]))]])])) None)
      (test_world test_server_inline)
      (call [(''prompt'', JStr ''a cat''), (''image_path'', JStr ''/tmp/out.png'')]))
     = Inr \<lparr>text_of = JStr (''Image saved successfully to: /tmp/out.png''
                               @ [CHR 0x0A, CHR 0x0A] @ ''{}''),
            isError = False\<rparr>"
  using inline_save_writes_decoded_bytes
    [of "call [(''prompt'', JStr ''a cat''), (''image_path'', JStr ''/tmp/out.png'')]"
        "''a cat''" "''/tmp/out.png''"
        "test_env (Inr (JObj [(''id'', JStr ''gen-1''),
          (''data'', JArr [JObj [(''index'', JNum 0),
                                 (''b64_json'', JStr (base64_encode [104, 105]))]])])) None"
        "test_world test_server_inline"
        "JObj [(''id'', JStr ''gen-1''),
          (''data'', JArr [JObj [(''index'', JNum 0),
                                 (''b64_json'', JStr (base64_encode [104, 105]))]])]"
        "base64_encode [104, 105]" "[104, 105]"]
  by (simp add: name_call arguments_call test_env_def first_b64_def opt_field_def
      base64_encode_empty base64_decode_encode del: base64_encode.simps)

end
